theory Spec2Isabelle
  imports Main
begin

section \<open>The quiz client: data\<close>

text \<open>
  The client is one script: a session record \<open>assessmentState\<close>, a fixed set of page
  elements, four click listeners and two asynchronous functions that talk to the
  assessment service. The page is modelled as one record \<open>Page\<close> holding the session,
  what the script reads or writes of each element, and what the script hands to its
  environment (alert boxes, console messages, requests).
\<close>

record UserAnswer =
  question :: string
  correct :: bool

record AssessmentState =
  career :: string
  previous_answers :: "UserAnswer list"
  total_questions :: int
  is_retry :: bool

record Resource =
  type :: string
  title :: string
  link :: "string option"

text \<open>
  The response of the assessment endpoint. An optional field of the interface is an
  \<open>option\<close>; \<open>message\<close> is read through \<open>data.message || ''\<close> and is optional on the
  wire. \<open>final_step\<close> is the boolean the script branches on.
\<close>

record ApiResponse =
  message :: "string option"
  next_question :: "string option"
  resources :: "Resource list option"
  final_step :: bool
  answer :: "string option"

text \<open>
  Children the script creates under \<open>jobList\<close> and \<open>resourcesBox\<close>: a list item is
  kept as the markup assigned to its \<open>innerHTML\<close>, a heading as its text.
\<close>

datatype node = Li string | H4 string | Ul "node list"

text \<open>The body of a request: the serialised session, or the question alone.\<close>

datatype request = CareerAssessment AssessmentState | RevealAnswer string

text \<open>
  What an awaited \<open>fetch(...)\<close> followed by \<open>response.json()\<close> yields: either of the
  two awaits throws, or the parsed body is there.
\<close>

datatype 'a settled = NetworkError | ParseError | Fulfilled 'a

record Page =
  assessmentState :: AssessmentState
  startScreen_hidden :: bool
  questionScreen_hidden :: bool
  resultsScreen_hidden :: bool
  loadingIndicator_hidden :: bool
  revealBtn_hidden :: bool
  retryBtn_hidden :: bool
  answerBox_hidden :: bool
  careerInput_value :: string
  aiMessageEl_text :: string
  aiQuestionEl_text :: string
  aiAnswerEl_text :: string
  jobList :: "node list"
  resourcesBox :: "node list"
  alerts :: "string list"
  console_errors :: "string list"
  fetches :: "request list"
  awaiting_assessment :: nat
  awaiting_reveal :: nat

text \<open>The session as the script creates it.\<close>

definition assessmentState_init :: AssessmentState where
  "assessmentState_init =
     \<lparr>career = '''', previous_answers = [], total_questions = 3, is_retry = False\<rparr>"

section \<open>JavaScript operators the script uses on strings\<close>

text \<open>\<open>a || b\<close> on strings: the empty string is the only falsy string.\<close>

definition or_else :: "string \<Rightarrow> string \<Rightarrow> string" where
  "or_else a b = (if a = [] then b else a)"

text \<open>\<open>a || b\<close> where \<open>a\<close> may be undefined.\<close>

definition opt_or_else :: "string option \<Rightarrow> string \<Rightarrow> string" where
  "opt_or_else a b = (case a of None \<Rightarrow> b | Some v \<Rightarrow> or_else v b)"

text \<open>A template placeholder \<open>${x}\<close> for an optional string.\<close>

definition interpolate :: "string option \<Rightarrow> string" where
  "interpolate x = (case x of None \<Rightarrow> ''undefined'' | Some v \<Rightarrow> v)"

section \<open>Rendering a response: \<open>updateUI\<close>\<close>

definition job_markup :: "Resource \<Rightarrow> string" where
  "job_markup job =
     ''<a href=\"'' @ interpolate (link job) @ ''\" target=\"_blank\">'' @ title job @ ''</a>''"

definition resource_markup :: "Resource \<Rightarrow> string" where
  "resource_markup resource =
     ''<a href=\"'' @ interpolate (link resource)
       @ ''\" target=\"_blank\" style=\"color: #dc3545;\">'' @ title resource @ ''</a> (''
       @ type resource @ '')''"

text \<open>\<open>parent.appendChild(listItem)\<close> for each element, in order.\<close>

definition appendItems :: "('a \<Rightarrow> string) \<Rightarrow> 'a list \<Rightarrow> node list \<Rightarrow> node list" where
  "appendItems markup xs children = foldl (\<lambda>cs x. cs @ [Li (markup x)]) children xs"

definition updateUI :: "ApiResponse \<Rightarrow> Page \<Rightarrow> Page" where
  "updateUI data s =
     (if final_step data then
        s\<lparr>questionScreen_hidden := True,
          resultsScreen_hidden := False,
          jobList := (case resources data of
                        None \<Rightarrow> []
                      | Some jobs \<Rightarrow> appendItems job_markup jobs [])\<rparr>
      else
        (case resources data of
           Some (r # rs) \<Rightarrow>
             s\<lparr>aiMessageEl_text := opt_or_else (message data) '''',
               aiQuestionEl_text :=
                 ''Please review the resources below, then click 'Retry Question' to continue.'',
               revealBtn_hidden := True,
               answerBox_hidden := True,
               retryBtn_hidden := False,
               resourcesBox :=
                 [] @ [H4 ''Here are some resources to help:'']
                    @ [Ul (appendItems resource_markup (r # rs) [])]\<rparr>
         | _ \<Rightarrow>
             (case next_question data of
                Some (c # cs) \<Rightarrow>
                  s\<lparr>aiMessageEl_text := opt_or_else (message data) '''',
                    aiQuestionEl_text := c # cs,
                    answerBox_hidden := True,
                    revealBtn_hidden := False,
                    retryBtn_hidden := True,
                    resourcesBox := []\<rparr>
              | _ \<Rightarrow> s)))"

section \<open>The two asynchronous functions\<close>

text \<open>
  An \<open>async\<close> function runs synchronously up to its first \<open>await\<close> and returns to its
  caller there; the rest runs when the awaited promise settles. Each of \<open>callApi\<close> and
  \<open>fetchAnswer\<close> is therefore two functions: the part up to the request (named as in the
  source) and the part after it (\<open>_settled\<close>), which takes what the two awaits yielded.
  \<open>fetch\<close> hands the request to the network and counts it as outstanding.
\<close>

definition fetch :: "request \<Rightarrow> Page \<Rightarrow> Page" where
  "fetch req s =
     (case req of
        CareerAssessment b \<Rightarrow>
          s\<lparr>fetches := fetches s @ [req], awaiting_assessment := Suc (awaiting_assessment s)\<rparr>
      | RevealAnswer q \<Rightarrow>
          s\<lparr>fetches := fetches s @ [req], awaiting_reveal := Suc (awaiting_reveal s)\<rparr>)"

definition callApi :: "Page \<Rightarrow> Page" where
  "callApi s =
     fetch (CareerAssessment (assessmentState s)) (s\<lparr>loadingIndicator_hidden := False\<rparr>)"

text \<open>\<open>try { updateUI(data) } catch { console.error } finally { hide the indicator }\<close>\<close>

definition callApi_settled :: "ApiResponse settled \<Rightarrow> Page \<Rightarrow> Page" where
  "callApi_settled r s =
     (let s' = (case r of
                  Fulfilled data \<Rightarrow> updateUI data s
                | _ \<Rightarrow> s\<lparr>console_errors :=
                         console_errors s @ [''API call to /career-assessment failed:'']\<rparr>)
      in s'\<lparr>loadingIndicator_hidden := True\<rparr>)"

definition fetchAnswer :: "Page \<Rightarrow> Page" where
  "fetchAnswer s =
     fetch (RevealAnswer (or_else (aiQuestionEl_text s) ''''))
       (s\<lparr>loadingIndicator_hidden := False\<rparr>)"

definition fetchAnswer_settled :: "string settled \<Rightarrow> Page \<Rightarrow> Page" where
  "fetchAnswer_settled r s =
     (let s' = (case r of
                  Fulfilled ans \<Rightarrow> s\<lparr>aiAnswerEl_text := ans, answerBox_hidden := False\<rparr>
                | _ \<Rightarrow> s\<lparr>console_errors :=
                           console_errors s @ [''API call to /reveal-answer failed:''],
                         aiAnswerEl_text := ''Error fetching answer.'',
                         answerBox_hidden := False\<rparr>)
      in s'\<lparr>loadingIndicator_hidden := True\<rparr>)"

section \<open>The click listeners\<close>

definition startAssessment :: "Page \<Rightarrow> Page" where
  "startAssessment s =
     (let s1 = s\<lparr>assessmentState := (assessmentState s)\<lparr>career := careerInput_value s\<rparr>\<rparr>
      in if career (assessmentState s1) = [] then
           s1\<lparr>alerts := alerts s1 @ [''Please enter a career.'']\<rparr>
         else
           callApi (s1\<lparr>startScreen_hidden := True, questionScreen_hidden := False\<rparr>))"

definition handleAnswer :: "bool \<Rightarrow> Page \<Rightarrow> Page" where
  "handleAnswer isCorrect s =
     (let lastQuestion = or_else (aiQuestionEl_text s) '''';
          s1 = s\<lparr>assessmentState := (assessmentState s)
                  \<lparr>previous_answers := previous_answers (assessmentState s)
                       @ [\<lparr>question = lastQuestion, correct = isCorrect\<rparr>]\<rparr>\<rparr>;
          s2 = s1\<lparr>assessmentState := (assessmentState s1)\<lparr>is_retry := False\<rparr>\<rparr>
      in callApi s2)"

definition retryClicked :: "Page \<Rightarrow> Page" where
  "retryClicked s = callApi (s\<lparr>assessmentState := (assessmentState s)\<lparr>is_retry := True\<rparr>\<rparr>)"

datatype control = startBtn | revealBtn | correctBtn | incorrectBtn | retryBtn

text \<open>The listener registered on each control.\<close>

fun listener :: "control \<Rightarrow> Page \<Rightarrow> Page" where
  "listener startBtn = startAssessment"
| "listener revealBtn = fetchAnswer"
| "listener correctBtn = handleAnswer True"
| "listener incorrectBtn = handleAnswer False"
| "listener retryBtn = retryClicked"

section \<open>The page in its browser\<close>

text \<open>
  Modelled from the spec: the page markup and its style sheet are not among the
  sources. Following the spec's description of the UI surface, the start control and
  the career input sit in the start view, the reveal, correct, incorrect and retry
  controls sit in the question view, and a region carrying the class \<open>hidden\<close> (or lying
  inside such a region) cannot be operated by the user.
\<close>

fun clickable :: "control \<Rightarrow> Page \<Rightarrow> bool" where
  "clickable startBtn s = (\<not> startScreen_hidden s)"
| "clickable revealBtn s = (\<not> questionScreen_hidden s \<and> \<not> revealBtn_hidden s)"
| "clickable correctBtn s = (\<not> questionScreen_hidden s)"
| "clickable incorrectBtn s = (\<not> questionScreen_hidden s)"
| "clickable retryBtn s = (\<not> questionScreen_hidden s \<and> \<not> retryBtn_hidden s)"

text \<open>
  Modelled from the spec: the state \<open>Start\<close> of the spec's state machine, in which the
  script finds the page: the session as the script creates it, the start view
  shown, the question and results views hidden, nothing sent yet.
\<close>

definition Start :: "Page \<Rightarrow> bool" where
  "Start s \<longleftrightarrow>
     assessmentState s = assessmentState_init \<and>
     \<not> startScreen_hidden s \<and> questionScreen_hidden s \<and> resultsScreen_hidden s \<and>
     fetches s = [] \<and> awaiting_assessment s = 0 \<and> awaiting_reveal s = 0"

text \<open>
  What can happen to the page: the user types into the career input, the user clicks a
  control that can be operated, or an outstanding request settles. \<open>fire\<close> is \<open>None\<close>
  for an event that cannot happen in the state.
\<close>

datatype event =
    Input string
  | Click control
  | AssessmentSettled "ApiResponse settled"
  | RevealSettled "string settled"

fun fire :: "event \<Rightarrow> Page \<Rightarrow> Page option" where
  "fire (Input v) s =
     (if startScreen_hidden s then None else Some (s\<lparr>careerInput_value := v\<rparr>))"
| "fire (Click c) s = (if clickable c s then Some (listener c s) else None)"
| "fire (AssessmentSettled r) s =
     (if awaiting_assessment s = 0 then None
      else Some (callApi_settled r (s\<lparr>awaiting_assessment := awaiting_assessment s - 1\<rparr>)))"
| "fire (RevealSettled r) s =
     (if awaiting_reveal s = 0 then None
      else Some (fetchAnswer_settled r (s\<lparr>awaiting_reveal := awaiting_reveal s - 1\<rparr>)))"

fun run :: "event list \<Rightarrow> Page \<Rightarrow> Page option" where
  "run [] s = Some s"
| "run (e # es) s = (case fire e s of None \<Rightarrow> None | Some s' \<Rightarrow> run es s')"

text \<open>A page in the state \<open>Start\<close>, with nothing rendered yet.\<close>

definition freshPage :: Page where
  "freshPage =
     \<lparr>assessmentState = assessmentState_init,
      startScreen_hidden = False, questionScreen_hidden = True,
      resultsScreen_hidden = True, loadingIndicator_hidden = True,
      revealBtn_hidden = False, retryBtn_hidden = True, answerBox_hidden = True,
      careerInput_value = '''', aiMessageEl_text = '''', aiQuestionEl_text = '''',
      aiAnswerEl_text = '''', jobList = [], resourcesBox = [],
      alerts = [], console_errors = [], fetches = [],
      awaiting_assessment = 0, awaiting_reveal = 0\<rparr>"

section \<open>What a run of the page records\<close>

text \<open>
  The records a run appends: at each click on the correct or incorrect control that can
  happen, the question displayed at that moment paired with the self-report.
\<close>

fun graded :: "event list \<Rightarrow> Page \<Rightarrow> UserAnswer list" where
  "graded [] s = []"
| "graded (e # es) s =
     (case fire e s of
        None \<Rightarrow> []
      | Some s' \<Rightarrow>
          (case e of
             Click correctBtn \<Rightarrow> [\<lparr>question = aiQuestionEl_text s, correct = True\<rparr>]
           | Click incorrectBtn \<Rightarrow> [\<lparr>question = aiQuestionEl_text s, correct = False\<rparr>]
           | _ \<Rightarrow> []) @ graded es s')"

text \<open>The self-reports of a sequence of events, in click order.\<close>

fun self_reports :: "event list \<Rightarrow> bool list" where
  "self_reports [] = []"
| "self_reports (Click correctBtn # es) = True # self_reports es"
| "self_reports (Click incorrectBtn # es) = False # self_reports es"
| "self_reports (e # es) = self_reports es"

text \<open>
  Calling the grade handler directly, each call followed by the settling of its request.
\<close>

fun grades :: "(bool \<times> ApiResponse settled) list \<Rightarrow> Page \<Rightarrow> Page" where
  "grades [] s = s"
| "grades ((isCorrect, r) # gs) s = grades gs (callApi_settled r (handleAnswer isCorrect s))"

text \<open>
  What holds of every page reached from \<open>Start\<close>: while the start view is shown nothing
  else is and no assessment request is outstanding, and the results view is never shown
  together with the question view.
\<close>

definition consistent :: "Page \<Rightarrow> bool" where
  "consistent s \<longleftrightarrow>
     (\<not> startScreen_hidden s \<longrightarrow>
        questionScreen_hidden s \<and> resultsScreen_hidden s \<and> awaiting_assessment s = 0
        \<and> \<not> is_retry (assessmentState s))
     \<and> (\<not> resultsScreen_hidden s \<longrightarrow> questionScreen_hidden s)
     \<and> total_questions (assessmentState s) = 3"

section \<open>Facts about the handlers\<close>

lemma or_else_empty [simp]: "or_else a '''' = a"
  by (simp add: or_else_def)

lemma appendItems_map: "appendItems markup xs cs = cs @ map (\<lambda>x. Li (markup x)) xs"
  unfolding appendItems_def by (induction xs arbitrary: cs) simp_all

lemma run_append:
  "run (xs @ ys) s = (case run xs s of None \<Rightarrow> None | Some s' \<Rightarrow> run ys s')"
  by (induction xs arbitrary: s) (simp_all split: option.splits)

lemma updateUI_session [simp]: "assessmentState (updateUI data s) = assessmentState s"
  by (simp add: updateUI_def split: option.splits list.splits)

lemma callApi_settled_session [simp]:
  "assessmentState (callApi_settled r s) = assessmentState s"
  by (simp add: callApi_settled_def Let_def split: settled.splits)

lemma fetchAnswer_settled_session [simp]:
  "assessmentState (fetchAnswer_settled r s) = assessmentState s"
  by (simp add: fetchAnswer_settled_def Let_def split: settled.splits)

lemma callApi_session [simp]: "assessmentState (callApi s) = assessmentState s"
  by (simp add: callApi_def fetch_def)

lemma fetchAnswer_session [simp]: "assessmentState (fetchAnswer s) = assessmentState s"
  by (simp add: fetchAnswer_def fetch_def)

lemma handleAnswer_session:
  "assessmentState (handleAnswer b s) =
     (assessmentState s)
       \<lparr>previous_answers := previous_answers (assessmentState s)
            @ [\<lparr>question = aiQuestionEl_text s, correct = b\<rparr>],
        is_retry := False\<rparr>"
  by (simp add: handleAnswer_def Let_def)

lemma retryClicked_session:
  "assessmentState (retryClicked s) = (assessmentState s)\<lparr>is_retry := True\<rparr>"
  by (simp add: retryClicked_def)

lemma startAssessment_session:
  "assessmentState (startAssessment s) = (assessmentState s)\<lparr>career := careerInput_value s\<rparr>"
  by (simp add: startAssessment_def Let_def)

subsection \<open>The history along a run\<close>

lemma fire_history:
  assumes "fire e s = Some s'"
  shows "previous_answers (assessmentState s')
           = previous_answers (assessmentState s) @ graded [e] s"
proof (cases e)
  case (Click c)
  with assms show ?thesis
    by (cases c)
      (auto simp: handleAnswer_session retryClicked_session startAssessment_session
        split: if_splits)
qed (use assms in \<open>auto split: if_splits\<close>)

lemma run_history:
  "run evs s = Some s' \<Longrightarrow>
     previous_answers (assessmentState s') = previous_answers (assessmentState s) @ graded evs s"
proof (induction evs arbitrary: s)
  case Nil
  then show ?case by simp
next
  case (Cons e es)
  from Cons.prems obtain t where t: "fire e s = Some t" and r: "run es t = Some s'"
    by (auto split: option.splits)
  have "previous_answers (assessmentState s')
          = previous_answers (assessmentState t) @ graded es t"
    using Cons.IH [OF r] .
  also have "previous_answers (assessmentState t)
          = previous_answers (assessmentState s) @ graded [e] s"
    using fire_history [OF t] .
  finally show ?case using t by simp
qed

lemma graded_reports:
  "run evs s = Some s' \<Longrightarrow> map correct (graded evs s) = self_reports evs"
proof (induction evs arbitrary: s)
  case Nil
  then show ?case by simp
next
  case (Cons e es)
  from Cons.prems obtain t where t: "fire e s = Some t" and r: "run es t = Some s'"
    by (auto split: option.splits)
  have ih: "map correct (graded es t) = self_reports es"
    using Cons.IH [OF r] .
  show ?case
  proof (cases e)
    case (Click c)
    then show ?thesis using t ih by (cases c) simp_all
  qed (use t ih in simp_all)
qed

lemma grades_history:
  "map correct (previous_answers (assessmentState (grades gs s)))
     = map correct (previous_answers (assessmentState s)) @ map fst gs"
proof (induction gs arbitrary: s)
  case Nil
  then show ?case by simp
next
  case (Cons g gs)
  obtain b r where g: "g = (b, r)" by (cases g)
  show ?case unfolding g by (simp add: Cons.IH handleAnswer_session)
qed

lemma grades_snoc:
  "grades (gs @ [(b, r)]) s = callApi_settled r (handleAnswer b (grades gs s))"
  by (induction gs arbitrary: s) auto

subsection \<open>Which views are shown\<close>

lemma Start_consistent: "Start s \<Longrightarrow> consistent s"
  by (simp add: Start_def consistent_def assessmentState_init_def)

lemma updateUI_screens:
  "startScreen_hidden (updateUI data s) = startScreen_hidden s"
  "\<not> resultsScreen_hidden s \<Longrightarrow> \<not> resultsScreen_hidden (updateUI data s)"
  "questionScreen_hidden s \<Longrightarrow> questionScreen_hidden (updateUI data s)"
  "resultsScreen_hidden (updateUI data s) \<Longrightarrow>
     questionScreen_hidden (updateUI data s) = questionScreen_hidden s"
  "fetches (updateUI data s) = fetches s"
  "awaiting_assessment (updateUI data s) = awaiting_assessment s"
  by (auto simp: updateUI_def split: option.splits list.splits if_splits)

lemma updateUI_results_question:
  "(\<not> resultsScreen_hidden s \<longrightarrow> questionScreen_hidden s) \<Longrightarrow>
     \<not> resultsScreen_hidden (updateUI data s) \<Longrightarrow> questionScreen_hidden (updateUI data s)"
  by (auto simp: updateUI_def split: option.splits list.splits if_splits)

lemma callApi_settled_results_question:
  "(\<not> resultsScreen_hidden s \<longrightarrow> questionScreen_hidden s) \<Longrightarrow>
     \<not> resultsScreen_hidden (callApi_settled r s) \<Longrightarrow>
     questionScreen_hidden (callApi_settled r s)"
  using updateUI_results_question [of s]
  by (cases r) (simp_all add: callApi_settled_def Let_def)

lemma callApi_settled_screens:
  "startScreen_hidden (callApi_settled r s) = startScreen_hidden s"
  "\<not> resultsScreen_hidden s \<Longrightarrow> \<not> resultsScreen_hidden (callApi_settled r s)"
  "questionScreen_hidden s \<Longrightarrow> questionScreen_hidden (callApi_settled r s)"
  "resultsScreen_hidden (callApi_settled r s) \<Longrightarrow>
     questionScreen_hidden (callApi_settled r s) = questionScreen_hidden s"
  "fetches (callApi_settled r s) = fetches s"
  "awaiting_assessment (callApi_settled r s) = awaiting_assessment s"
  by (auto simp: callApi_settled_def Let_def updateUI_screens split: settled.splits)

lemma fetchAnswer_settled_screens:
  "startScreen_hidden (fetchAnswer_settled r s) = startScreen_hidden s"
  "resultsScreen_hidden (fetchAnswer_settled r s) = resultsScreen_hidden s"
  "questionScreen_hidden (fetchAnswer_settled r s) = questionScreen_hidden s"
  "fetches (fetchAnswer_settled r s) = fetches s"
  "awaiting_assessment (fetchAnswer_settled r s) = awaiting_assessment s"
  by (simp_all add: fetchAnswer_settled_def Let_def split: settled.splits)

lemma callApi_screens:
  "startScreen_hidden (callApi s) = startScreen_hidden s"
  "resultsScreen_hidden (callApi s) = resultsScreen_hidden s"
  "questionScreen_hidden (callApi s) = questionScreen_hidden s"
  "fetches (callApi s) = fetches s @ [CareerAssessment (assessmentState s)]"
  "awaiting_assessment (callApi s) = Suc (awaiting_assessment s)"
  by (simp_all add: callApi_def fetch_def)

lemma fetchAnswer_screens:
  "startScreen_hidden (fetchAnswer s) = startScreen_hidden s"
  "resultsScreen_hidden (fetchAnswer s) = resultsScreen_hidden s"
  "questionScreen_hidden (fetchAnswer s) = questionScreen_hidden s"
  "awaiting_assessment (fetchAnswer s) = awaiting_assessment s"
  by (simp_all add: fetchAnswer_def fetch_def)

lemma handleAnswer_screens:
  "startScreen_hidden (handleAnswer b s) = startScreen_hidden s"
  "resultsScreen_hidden (handleAnswer b s) = resultsScreen_hidden s"
  "questionScreen_hidden (handleAnswer b s) = questionScreen_hidden s"
  by (simp_all add: handleAnswer_def Let_def callApi_screens)

lemma retryClicked_screens:
  "startScreen_hidden (retryClicked s) = startScreen_hidden s"
  "resultsScreen_hidden (retryClicked s) = resultsScreen_hidden s"
  "questionScreen_hidden (retryClicked s) = questionScreen_hidden s"
  by (simp_all add: retryClicked_def callApi_screens)

lemma startAssessment_screens:
  "resultsScreen_hidden (startAssessment s) = resultsScreen_hidden s"
  "careerInput_value s = [] \<Longrightarrow> startScreen_hidden (startAssessment s) = startScreen_hidden s"
  "careerInput_value s = [] \<Longrightarrow> questionScreen_hidden (startAssessment s) = questionScreen_hidden s"
  "careerInput_value s = [] \<Longrightarrow> awaiting_assessment (startAssessment s) = awaiting_assessment s"
  "careerInput_value s \<noteq> [] \<Longrightarrow> startScreen_hidden (startAssessment s)"
  by (simp_all add: startAssessment_def Let_def callApi_screens)

lemma fire_consistent:
  assumes "consistent s" and "fire e s = Some s'"
  shows "consistent s'"
proof (cases e)
  case (Input v)
  with assms show ?thesis by (auto simp: consistent_def split: if_splits)
next
  case (Click c)
  show ?thesis
  proof (cases c)
    case startBtn
    show ?thesis
    proof (cases "careerInput_value s = []")
      case True
      with assms Click startBtn show ?thesis
        by (auto simp: consistent_def startAssessment_screens startAssessment_session
            split: if_splits)
    next
      case False
      with assms Click startBtn show ?thesis
        by (auto simp: consistent_def startAssessment_screens startAssessment_session
            split: if_splits)
    qed
  next
    case revealBtn
    with assms Click show ?thesis
      by (auto simp: consistent_def fetchAnswer_screens split: if_splits)
  next
    case correctBtn
    with assms Click show ?thesis
      by (auto simp: consistent_def handleAnswer_screens handleAnswer_session split: if_splits)
  next
    case incorrectBtn
    with assms Click show ?thesis
      by (auto simp: consistent_def handleAnswer_screens handleAnswer_session split: if_splits)
  next
    case retryBtn
    with assms Click show ?thesis
      by (auto simp: consistent_def retryClicked_screens retryClicked_session split: if_splits)
  qed
next
  case (AssessmentSettled r)
  with assms have s': "s' = callApi_settled r (s\<lparr>awaiting_assessment := awaiting_assessment s - 1\<rparr>)"
    and pos: "awaiting_assessment s \<noteq> 0"
    by (auto split: if_splits)
  from pos assms(1) have hid: "startScreen_hidden s" by (auto simp: consistent_def)
  have "\<not> resultsScreen_hidden (s\<lparr>awaiting_assessment := awaiting_assessment s - 1\<rparr>)
          \<longrightarrow> questionScreen_hidden (s\<lparr>awaiting_assessment := awaiting_assessment s - 1\<rparr>)"
    using assms(1) by (simp add: consistent_def)
  from callApi_settled_results_question [OF this, of r]
  have "\<not> resultsScreen_hidden s' \<longrightarrow> questionScreen_hidden s'"
    unfolding s' by blast
  moreover have "startScreen_hidden s'"
    unfolding s' using hid by (simp add: callApi_settled_screens(1))
  moreover have "total_questions (assessmentState s') = 3"
    unfolding s' using assms(1) by (simp add: consistent_def)
  ultimately show ?thesis by (simp add: consistent_def)
next
  case (RevealSettled r)
  with assms show ?thesis
    by (auto simp: consistent_def fetchAnswer_settled_screens split: if_splits)
qed

lemma run_consistent:
  "consistent s \<Longrightarrow> run evs s = Some s' \<Longrightarrow> consistent s'"
  by (induction evs arbitrary: s) (auto split: option.splits dest: fire_consistent)

lemma results_no_click:
  "consistent s \<Longrightarrow> \<not> resultsScreen_hidden s \<Longrightarrow> \<not> clickable c s"
  by (cases c) (auto simp: consistent_def)

lemma results_fire:
  assumes "consistent s" and "\<not> resultsScreen_hidden s" and "fire e s = Some s'"
  shows "fetches s' = fetches s \<and> \<not> resultsScreen_hidden s'"
proof (cases e)
  case (Click c)
  with assms results_no_click [OF assms(1,2), of c] show ?thesis by simp
qed (use assms in \<open>auto simp: callApi_settled_screens fetchAnswer_settled_screens split: if_splits\<close>)

lemma results_run:
  "consistent s \<Longrightarrow> \<not> resultsScreen_hidden s \<Longrightarrow> run evs s = Some s' \<Longrightarrow>
     fetches s' = fetches s \<and> \<not> resultsScreen_hidden s' \<and> consistent s'"
proof (induction evs arbitrary: s)
  case Nil
  then show ?case by simp
next
  case (Cons e es)
  from Cons.prems(3) obtain t where t: "fire e s = Some t" and r: "run es t = Some s'"
    by (auto split: option.splits)
  have ft: "fetches t = fetches s \<and> \<not> resultsScreen_hidden t"
    using results_fire [OF Cons.prems(1,2) t] .
  have ct: "consistent t" using fire_consistent [OF Cons.prems(1) t] .
  show ?case using Cons.IH [OF ct _ r] ft by simp
qed

lemma retry_request_origin:
  assumes "consistent s" and "fire e s = Some s'"
    and "fetches s' = fetches s @ [CareerAssessment body]" and "is_retry body"
  shows "e = Click retryBtn"
proof (cases e)
  case (Click c)
  show ?thesis
  proof (cases c)
    case startBtn
    with assms Click show ?thesis
      by (auto simp: consistent_def startAssessment_def Let_def callApi_screens
          split: if_splits)
  next
    case revealBtn
    with assms Click show ?thesis
      by (auto simp: fetchAnswer_def fetch_def split: if_splits)
  next
    case correctBtn
    with assms Click show ?thesis
      by (auto simp: handleAnswer_def Let_def callApi_screens split: if_splits)
  next
    case incorrectBtn
    with assms Click show ?thesis
      by (auto simp: handleAnswer_def Let_def callApi_screens split: if_splits)
  next
    case retryBtn
    with Click show ?thesis by simp
  qed
qed (use assms in \<open>auto simp: callApi_settled_screens fetchAnswer_settled_screens
       split: if_splits\<close>)

text \<open>The definitions a concrete run is evaluated with.\<close>

lemmas page_eval =
  freshPage_def assessmentState_init_def Start_def startAssessment_def handleAnswer_def
  retryClicked_def fetchAnswer_def fetchAnswer_settled_def callApi_def callApi_settled_def
  fetch_def updateUI_def appendItems_def job_markup_def resource_markup_def interpolate_def
  opt_or_else_def or_else_def Let_def

section \<open>The claims\<close>

text \<open>
  Claim C1. A response with \<open>final_step\<close> false and a non-empty resource list is rendered
  by the remediation branch, whatever \<open>next_question\<close> holds: the retry control is
  shown, the reveal control is hidden, the placeholder question and the resource list are
  rendered, and replacing \<open>next_question\<close> by any value gives the same page (the resource
  list is tested first).
\<close>

theorem remediation_precedence:
  assumes "\<not> final_step data" and "resources data = Some rs" and "rs \<noteq> []"
  shows "updateUI data s =
           s\<lparr>aiMessageEl_text := opt_or_else (message data) '''',
             aiQuestionEl_text :=
               ''Please review the resources below, then click 'Retry Question' to continue.'',
             revealBtn_hidden := True,
             answerBox_hidden := True,
             retryBtn_hidden := False,
             resourcesBox := [H4 ''Here are some resources to help:'',
                              Ul (map (\<lambda>r. Li (resource_markup r)) rs)]\<rparr>
         \<and> \<not> retryBtn_hidden (updateUI data s)
         \<and> revealBtn_hidden (updateUI data s)
         \<and> updateUI (data\<lparr>next_question := q\<rparr>) s = updateUI data s"
proof -
  from assms(3) obtain r rs' where rs: "rs = r # rs'" by (cases rs) auto
  show ?thesis
    using assms(1,2) unfolding rs by (simp add: updateUI_def appendItems_map)
qed

theorem remediation_precedence_witness:
  "updateUI \<lparr>message = Some ''Review this'', next_question = Some ''What is a heap?'',
             resources = Some [\<lparr>type = ''video'', title = ''Heaps'', link = None\<rparr>],
             final_step = False, answer = None\<rparr> freshPage
   = freshPage\<lparr>aiMessageEl_text := ''Review this'',
       aiQuestionEl_text :=
         ''Please review the resources below, then click 'Retry Question' to continue.'',
       revealBtn_hidden := True,
       retryBtn_hidden := False,
       resourcesBox := [H4 ''Here are some resources to help:'',
         Ul [Li ''<a href=\"undefined\" target=\"_blank\" style=\"color: #dc3545;\">Heaps</a> (video)'']]\<rparr>"
  using remediation_precedence [of "\<lparr>message = Some ''Review this'', next_question = Some ''What is a heap?'',
             resources = Some [\<lparr>type = ''video'', title = ''Heaps'', link = None\<rparr>],
             final_step = False, answer = None\<rparr>" "[\<lparr>type = ''video'', title = ''Heaps'', link = None\<rparr>]" freshPage]
  by (simp add: freshPage_def opt_or_else_def resource_markup_def interpolate_def)

text \<open>
  Claim C2. After a run from \<open>Start\<close> the history is exactly the records of the grade
  clicks of the run, in click order, each pairing the question displayed at the click
  with the self-report; its length is the number of grade clicks; a longer run only
  appends to it. One call of the grade handler appends exactly that one record and
  leaves \<open>is_retry\<close> false, also after its request has settled. The same holds of \<open>n\<close>
  direct calls of the handler from any page: \<open>n\<close> records more, the self-reports in
  call order, \<open>is_retry\<close> false after the last call.
\<close>

theorem grade_history:
  assumes "Start s0" and "run evs s0 = Some s" and "run evs' s = Some s'"
  shows "previous_answers (assessmentState s) = graded evs s0
       \<and> map correct (previous_answers (assessmentState s)) = self_reports evs
       \<and> length (previous_answers (assessmentState s)) = length (self_reports evs)
       \<and> previous_answers (assessmentState s')
           = previous_answers (assessmentState s) @ graded evs' s
       \<and> assessmentState (handleAnswer b t)
           = (assessmentState t)
               \<lparr>previous_answers := previous_answers (assessmentState t)
                    @ [\<lparr>question = aiQuestionEl_text t, correct = b\<rparr>],
                is_retry := False\<rparr>
       \<and> \<not> is_retry (assessmentState (handleAnswer b t))
       \<and> \<not> is_retry (assessmentState (callApi_settled r (handleAnswer b t)))
       \<and> map correct (previous_answers (assessmentState (grades gs p)))
           = map correct (previous_answers (assessmentState p)) @ map fst gs
       \<and> length (previous_answers (assessmentState (grades gs p)))
           = length (previous_answers (assessmentState p)) + length gs
       \<and> \<not> is_retry (assessmentState (grades (gs @ [(b, r)]) p))"
proof -
  have empty: "previous_answers (assessmentState s0) = []"
    using assms(1) by (simp add: Start_def assessmentState_init_def)
  have h: "previous_answers (assessmentState s) = graded evs s0"
    using run_history [OF assms(2)] empty by simp
  have m: "map correct (graded evs s0) = self_reports evs"
    using graded_reports [OF assms(2)] .
  have l: "length (graded evs s0) = length (self_reports evs)"
    using arg_cong [OF m, of length] by simp
  have g: "map correct (previous_answers (assessmentState (grades gs p)))
           = map correct (previous_answers (assessmentState p)) @ map fst gs"
    using grades_history [of gs p] .
  have gl: "length (previous_answers (assessmentState (grades gs p)))
           = length (previous_answers (assessmentState p)) + length gs"
    using arg_cong [OF g, of length] by simp
  have gr: "\<not> is_retry (assessmentState (grades (gs @ [(b, r)]) p))"
    by (simp add: grades_snoc handleAnswer_session)
  show ?thesis
    using h m l g gl gr run_history [OF assms(3)] by (simp add: handleAnswer_session)
qed

theorem grade_history_witness:
  "Start freshPage
   \<and> previous_answers (assessmentState (the (run
        [Input ''nurse'', Click startBtn,
         AssessmentSettled (Fulfilled \<lparr>message = None, next_question = Some ''Q1'',
           resources = None, final_step = False, answer = None\<rparr>),
         Click correctBtn,
         AssessmentSettled (Fulfilled \<lparr>message = None, next_question = Some ''Q2'',
           resources = None, final_step = False, answer = None\<rparr>),
         Click incorrectBtn] freshPage)))
     = [\<lparr>question = ''Q1'', correct = True\<rparr>, \<lparr>question = ''Q2'', correct = False\<rparr>]
   \<and> previous_answers (assessmentState (the (run
        [Input ''nurse'', Click startBtn,
         AssessmentSettled (Fulfilled \<lparr>message = None, next_question = Some ''Q1'',
           resources = None, final_step = False, answer = None\<rparr>),
         Click correctBtn,
         AssessmentSettled (Fulfilled \<lparr>message = None, next_question = Some ''Q2'',
           resources = None, final_step = False, answer = None\<rparr>),
         Click incorrectBtn, AssessmentSettled NetworkError, Click correctBtn] freshPage)))
     = [\<lparr>question = ''Q1'', correct = True\<rparr>, \<lparr>question = ''Q2'', correct = False\<rparr>,
        \<lparr>question = ''Q2'', correct = True\<rparr>]"
proof -
  let ?evs = "[Input ''nurse'', Click startBtn,
         AssessmentSettled (Fulfilled \<lparr>message = None, next_question = Some ''Q1'',
           resources = None, final_step = False, answer = None\<rparr>),
         Click correctBtn,
         AssessmentSettled (Fulfilled \<lparr>message = None, next_question = Some ''Q2'',
           resources = None, final_step = False, answer = None\<rparr>),
         Click incorrectBtn]"
  let ?evs' = "[AssessmentSettled NetworkError, Click correctBtn]"
  let ?s = "the (run ?evs freshPage)"
  let ?s' = "the (run ?evs' ?s)"
  have a: "Start freshPage" by (simp add: page_eval)
  have b: "run ?evs freshPage = Some ?s" by (simp add: page_eval)
  have c: "run ?evs' ?s = Some ?s'" by (simp add: page_eval)
  have d: "graded ?evs freshPage
     = [\<lparr>question = ''Q1'', correct = True\<rparr>, \<lparr>question = ''Q2'', correct = False\<rparr>]"
    by (simp add: page_eval)
  have e: "graded ?evs' ?s = [\<lparr>question = ''Q2'', correct = True\<rparr>]"
    by (simp add: page_eval)
  have f: "the (run (?evs @ ?evs') freshPage) = ?s'"
    by (simp add: page_eval)
  show ?thesis
    using grade_history [OF a b c] a d e f by simp
qed

text \<open>
  Claim C3. The retry listener, which returns when it has issued its request, leaves the
  history and the displayed question as they were, sets \<open>is_retry\<close>, and its request
  carries \<open>is_retry = true\<close>; the settling of that request leaves the session as it is.
  The request of any later grade click carries \<open>is_retry = false\<close>. In a run from
  \<open>Start\<close>, a request carrying \<open>is_retry = true\<close> is issued by a click on the retry
  control and by nothing else.
\<close>

theorem retry_frame:
  assumes "Start s0" and "run evs s0 = Some t" and "fire e t = Some t'"
    and "fetches t' = fetches t @ [CareerAssessment body]" and "is_retry body"
  shows "e = Click retryBtn
   \<and> previous_answers (assessmentState (retryClicked s)) = previous_answers (assessmentState s)
   \<and> aiQuestionEl_text (retryClicked s) = aiQuestionEl_text s
   \<and> is_retry (assessmentState (retryClicked s))
   \<and> fetches (retryClicked s)
       = fetches s @ [CareerAssessment ((assessmentState s)\<lparr>is_retry := True\<rparr>)]
   \<and> assessmentState (callApi_settled r (retryClicked s)) = assessmentState (retryClicked s)
   \<and> (\<exists>b'. fetches (handleAnswer b (callApi_settled r (retryClicked s)))
                = fetches (callApi_settled r (retryClicked s)) @ [CareerAssessment b']
              \<and> \<not> is_retry b')
   \<and> (\<exists>b'. fetches (handleAnswer b u) = fetches u @ [CareerAssessment b']
              \<and> \<not> is_retry b')"
proof -
  have ct: "consistent t"
    using run_consistent [OF Start_consistent [OF assms(1)] assms(2)] .
  have "e = Click retryBtn"
    using retry_request_origin [OF ct assms(3,4,5)] .
  moreover have "fetches (handleAnswer b v)
      = fetches v @ [CareerAssessment (assessmentState (handleAnswer b v))]
      \<and> \<not> is_retry (assessmentState (handleAnswer b v))" for v
    by (simp add: handleAnswer_def Let_def callApi_screens)
  moreover have "aiQuestionEl_text (retryClicked s) = aiQuestionEl_text s"
    by (simp add: retryClicked_def callApi_def fetch_def)
  ultimately show ?thesis
    by (simp add: retryClicked_session callApi_screens retryClicked_def)
qed

theorem retry_frame_witness:
  "Start freshPage
   \<and> fetches (the (run [Input ''nurse'', Click startBtn,
        AssessmentSettled (Fulfilled \<lparr>message = Some ''Review this'', next_question = None,
          resources = Some [\<lparr>type = ''video'', title = ''Heaps'', link = None\<rparr>],
          final_step = False, answer = None\<rparr>), Click retryBtn] freshPage))
     = [CareerAssessment \<lparr>career = ''nurse'', previous_answers = [], total_questions = 3,
          is_retry = False\<rparr>,
        CareerAssessment \<lparr>career = ''nurse'', previous_answers = [], total_questions = 3,
          is_retry = True\<rparr>]"
proof -
  let ?evs = "[Input ''nurse'', Click startBtn,
        AssessmentSettled (Fulfilled \<lparr>message = Some ''Review this'', next_question = None,
          resources = Some [\<lparr>type = ''video'', title = ''Heaps'', link = None\<rparr>],
          final_step = False, answer = None\<rparr>)]"
  let ?t = "the (run ?evs freshPage)"
  let ?body = "\<lparr>career = ''nurse'', previous_answers = [], total_questions = 3,
          is_retry = True\<rparr>"
  have a: "Start freshPage" by (simp add: page_eval)
  have b: "run ?evs freshPage = Some ?t" by (simp add: page_eval)
  have c: "fire (Click retryBtn) ?t = Some (retryClicked ?t)" by (simp add: page_eval)
  have d: "fetches (retryClicked ?t) = fetches ?t @ [CareerAssessment ?body]"
    by (simp add: page_eval)
  have e: "is_retry ?body" by simp
  have f: "fetches (the (run (?evs @ [Click retryBtn]) freshPage))
     = [CareerAssessment \<lparr>career = ''nurse'', previous_answers = [], total_questions = 3,
          is_retry = False\<rparr>, CareerAssessment ?body]"
    by (simp add: page_eval)
  show ?thesis
    using retry_frame [OF a b c d e] a f by simp
qed

text \<open>
  Claim C4, as amended. With an empty career input \<open>startAssessment\<close> issues no request,
  raises the alert and leaves every view as it was (the session's career becomes the
  empty string). With any non-empty career input, a whitespace-only one included, it
  hides the start view, shows the question view and issues exactly one assessment request
  carrying the career, without an alert.
\<close>

theorem begin_empty_or_not:
  "(careerInput_value s = '''' \<longrightarrow>
      startAssessment s =
        s\<lparr>assessmentState := (assessmentState s)\<lparr>career := ''''\<rparr>,
          alerts := alerts s @ [''Please enter a career.'']\<rparr>
      \<and> fetches (startAssessment s) = fetches s
      \<and> startScreen_hidden (startAssessment s) = startScreen_hidden s
      \<and> questionScreen_hidden (startAssessment s) = questionScreen_hidden s
      \<and> resultsScreen_hidden (startAssessment s) = resultsScreen_hidden s)
   \<and> (careerInput_value s \<noteq> '''' \<longrightarrow>
      startScreen_hidden (startAssessment s)
      \<and> \<not> questionScreen_hidden (startAssessment s)
      \<and> fetches (startAssessment s) =
          fetches s @ [CareerAssessment ((assessmentState s)\<lparr>career := careerInput_value s\<rparr>)]
      \<and> alerts (startAssessment s) = alerts s)"
  by (simp add: startAssessment_def callApi_def fetch_def Let_def)

theorem begin_empty_or_not_witness:
  "startAssessment freshPage = freshPage\<lparr>alerts := [''Please enter a career.'']\<rparr>
   \<and> fetches (startAssessment (freshPage\<lparr>careerInput_value := ''nurse''\<rparr>))
        = [CareerAssessment (assessmentState_init\<lparr>career := ''nurse''\<rparr>)]
   \<and> fetches (startAssessment (freshPage\<lparr>careerInput_value := '' ''\<rparr>))
        = [CareerAssessment (assessmentState_init\<lparr>career := '' ''\<rparr>)]"
  using begin_empty_or_not [of freshPage]
    begin_empty_or_not [of "freshPage\<lparr>careerInput_value := ''nurse''\<rparr>"]
    begin_empty_or_not [of "freshPage\<lparr>careerInput_value := '' ''\<rparr>"]
  by (simp add: freshPage_def assessmentState_init_def)

text \<open>
  Claim C4 as stated fails for a whitespace-only input: the script tests the career
  with \<open>!assessmentState.career\<close>, which only the empty string satisfies. With the
  career \<open>" "\<close> a request is issued, the start view is left and no alert is raised.
\<close>

theorem begin_whitespace_counterexample:
  "fetches (startAssessment (freshPage\<lparr>careerInput_value := '' ''\<rparr>))
     = [CareerAssessment (assessmentState_init\<lparr>career := '' ''\<rparr>)]
   \<and> startScreen_hidden (startAssessment (freshPage\<lparr>careerInput_value := '' ''\<rparr>))
   \<and> \<not> questionScreen_hidden (startAssessment (freshPage\<lparr>careerInput_value := '' ''\<rparr>))
   \<and> alerts (startAssessment (freshPage\<lparr>careerInput_value := '' ''\<rparr>)) = []"
  by (simp add: startAssessment_def freshPage_def callApi_def fetch_def Let_def)

text \<open>
  Claim C5. A response with \<open>final_step\<close> true and two resources replaces whatever
  \<open>jobList\<close> held by exactly two links, hides the question view and shows the results
  view. When such a response settles in a run from \<open>Start\<close>, then however the run goes
  on, no request is issued any more, the results view stays shown and no control can be
  clicked.
\<close>

theorem terminal_results:
  assumes "final_step data" and "resources data = Some [r1, r2]"
    and "Start s0" and "run evs s0 = Some s"
    and "fire (AssessmentSettled (Fulfilled data)) s = Some s1"
    and "run evs' s1 = Some s2"
  shows "updateUI data p =
           p\<lparr>questionScreen_hidden := True, resultsScreen_hidden := False,
             jobList := [Li (job_markup r1), Li (job_markup r2)]\<rparr>
       \<and> jobList s1 = [Li (job_markup r1), Li (job_markup r2)]
       \<and> questionScreen_hidden s1 \<and> \<not> resultsScreen_hidden s1
       \<and> fetches s2 = fetches s1
       \<and> \<not> resultsScreen_hidden s2
       \<and> (\<forall>c. fire (Click c) s2 = None)"
proof -
  have u: "updateUI data p =
           p\<lparr>questionScreen_hidden := True, resultsScreen_hidden := False,
             jobList := [Li (job_markup r1), Li (job_markup r2)]\<rparr>" for p
    using assms(1,2) by (simp add: updateUI_def appendItems_map)
  have s1: "s1 = callApi_settled (Fulfilled data)
                  (s\<lparr>awaiting_assessment := awaiting_assessment s - 1\<rparr>)"
    using assms(5) by (auto split: if_splits)
  have v: "jobList s1 = [Li (job_markup r1), Li (job_markup r2)]
           \<and> questionScreen_hidden s1 \<and> \<not> resultsScreen_hidden s1"
    unfolding s1 by (simp add: callApi_settled_def u)
  have cs: "consistent s"
    using run_consistent [OF Start_consistent [OF assms(3)] assms(4)] .
  have c1: "consistent s1" using fire_consistent [OF cs assms(5)] .
  have r: "fetches s2 = fetches s1 \<and> \<not> resultsScreen_hidden s2 \<and> consistent s2"
    using results_run [OF c1 _ assms(6)] v by simp
  have "fire (Click c) s2 = None" for c
    using results_no_click [of s2 c] r by simp
  then show ?thesis using u v r by simp
qed

theorem terminal_results_witness:
  "Start freshPage
   \<and> jobList (the (run [Input ''nurse'', Click startBtn, Click correctBtn,
        AssessmentSettled (Fulfilled \<lparr>message = None, next_question = None,
          resources = Some [\<lparr>type = ''job'', title = ''Ward nurse'', link = Some ''https://a''\<rparr>,
                            \<lparr>type = ''job'', title = ''Midwife'', link = None\<rparr>],
          final_step = True, answer = None\<rparr>)] freshPage))
     = [Li ''<a href=\"https://a\" target=\"_blank\">Ward nurse</a>'',
        Li ''<a href=\"undefined\" target=\"_blank\">Midwife</a>'']
   \<and> length (fetches (the (run [Input ''nurse'', Click startBtn, Click correctBtn,
        AssessmentSettled (Fulfilled \<lparr>message = None, next_question = None,
          resources = Some [\<lparr>type = ''job'', title = ''Ward nurse'', link = Some ''https://a''\<rparr>,
                            \<lparr>type = ''job'', title = ''Midwife'', link = None\<rparr>],
          final_step = True, answer = None\<rparr>),
        AssessmentSettled (Fulfilled \<lparr>message = None, next_question = Some ''Q2'',
          resources = None, final_step = False, answer = None\<rparr>)] freshPage))) = 2"
proof -
  let ?data = "\<lparr>message = None, next_question = None,
          resources = Some [\<lparr>type = ''job'', title = ''Ward nurse'', link = Some ''https://a''\<rparr>,
                            \<lparr>type = ''job'', title = ''Midwife'', link = None\<rparr>],
          final_step = True, answer = None\<rparr>"
  let ?evs = "[Input ''nurse'', Click startBtn, Click correctBtn]"
  let ?evs' = "[AssessmentSettled (Fulfilled \<lparr>message = None, next_question = Some ''Q2'',
          resources = None, final_step = False, answer = None\<rparr>)]"
  let ?s = "the (run ?evs freshPage)"
  let ?s1 = "the (fire (AssessmentSettled (Fulfilled ?data)) ?s)"
  let ?s2 = "the (run ?evs' ?s1)"
  have a: "Start freshPage" by (simp add: page_eval)
  have b: "run ?evs freshPage = Some ?s" by (simp add: page_eval)
  have c: "fire (AssessmentSettled (Fulfilled ?data)) ?s = Some ?s1" by (simp add: page_eval)
  have d: "run ?evs' ?s1 = Some ?s2" by (simp add: page_eval)
  have e: "final_step ?data" by simp
  have f: "resources ?data
     = Some [\<lparr>type = ''job'', title = ''Ward nurse'', link = Some ''https://a''\<rparr>,
             \<lparr>type = ''job'', title = ''Midwife'', link = None\<rparr>]" by simp
  have g: "the (run (?evs @ [AssessmentSettled (Fulfilled ?data)]) freshPage) = ?s1"
    by (simp add: page_eval)
  have h: "the (run (?evs @ [AssessmentSettled (Fulfilled ?data)] @ ?evs') freshPage) = ?s2"
    by (simp add: page_eval)
  have i: "length (fetches ?s1) = 2" by (simp add: page_eval)
  show ?thesis
    using terminal_results [OF e f a b c d] a g h i
    by (simp add: job_markup_def interpolate_def)
qed

text \<open>
  Claim C6. A response with \<open>final_step\<close> false, resources absent or empty and
  \<open>next_question\<close> absent or empty leaves the whole page as it is; the request that
  brought it ends with nothing but the loading indicator hidden, and in particular
  without a console error.
\<close>

theorem unrecognised_noop:
  assumes "\<not> final_step data"
    and "resources data = None \<or> resources data = Some []"
    and "next_question data = None \<or> next_question data = Some ''''"
  shows "updateUI data s = s
         \<and> callApi_settled (Fulfilled data) s = s\<lparr>loadingIndicator_hidden := True\<rparr>"
  using assms by (auto simp: updateUI_def callApi_settled_def)

theorem unrecognised_noop_witness:
  "updateUI \<lparr>message = Some ''hello'', next_question = Some '''', resources = Some [],
             final_step = False, answer = None\<rparr> freshPage = freshPage
   \<and> updateUI \<lparr>message = None, next_question = None, resources = None,
             final_step = False, answer = None\<rparr> freshPage = freshPage"
  using unrecognised_noop [of "\<lparr>message = Some ''hello'', next_question = Some '''',
      resources = Some [], final_step = False, answer = None\<rparr>" freshPage]
    unrecognised_noop [of "\<lparr>message = None, next_question = None, resources = None,
      final_step = False, answer = None\<rparr>" freshPage]
  by simp

text \<open>
  Claim C7. Both \<open>callApi\<close> and \<open>fetchAnswer\<close> show the loading indicator when they
  issue their request, and hide it when the request has settled, whatever it settled
  to: a parsed body, a network error or a parse error.
\<close>

theorem loading_indicator:
  "\<not> loadingIndicator_hidden (callApi s)
   \<and> \<not> loadingIndicator_hidden (fetchAnswer s)
   \<and> loadingIndicator_hidden (callApi_settled r s)
   \<and> loadingIndicator_hidden (fetchAnswer_settled r' s)"
  by (simp add: callApi_def fetchAnswer_def fetch_def callApi_settled_def
      fetchAnswer_settled_def Let_def)

text \<open>
  Claim C8. When the reveal request fails, by a network error or a parse error alike, the
  handler logs the failure, sets the answer text to \<open>Error fetching answer.\<close>, shows
  the answer panel as it does on success, hides the loading indicator and changes nothing
  else; the settling is an ordinary step of the page.
\<close>

theorem reveal_failure_fallback:
  "fetchAnswer_settled NetworkError s =
     s\<lparr>console_errors := console_errors s @ [''API call to /reveal-answer failed:''],
       aiAnswerEl_text := ''Error fetching answer.'',
       answerBox_hidden := False,
       loadingIndicator_hidden := True\<rparr>
   \<and> fetchAnswer_settled ParseError s = fetchAnswer_settled NetworkError s
   \<and> aiAnswerEl_text (fetchAnswer_settled NetworkError s) = ''Error fetching answer.''
   \<and> \<not> answerBox_hidden (fetchAnswer_settled NetworkError s)
   \<and> answerBox_hidden (fetchAnswer_settled NetworkError s)
       = answerBox_hidden (fetchAnswer_settled (Fulfilled ans) s)
   \<and> fire (RevealSettled NetworkError) (fetchAnswer s)
       = Some (fetchAnswer_settled NetworkError
                 (s\<lparr>loadingIndicator_hidden := False,
                    fetches := fetches s @ [RevealAnswer (aiQuestionEl_text s)]\<rparr>))"
  by (simp add: fetchAnswer_settled_def fetchAnswer_def fetch_def)

text \<open>
  Claim C9. \<open>updateUI\<close> and the settling of either request leave the session record as
  it is; an event of a run from \<open>Start\<close> that is not a click on the start, correct,
  incorrect or retry control leaves the session record as it is; \<open>total_questions\<close> is 3
  before and after every event of such a run.
\<close>

theorem session_frame:
  assumes "Start s0" and "run evs s0 = Some s" and "fire e s = Some s'"
  shows "assessmentState (updateUI data p) = assessmentState p
       \<and> assessmentState (callApi_settled r p) = assessmentState p
       \<and> assessmentState (fetchAnswer_settled r' p) = assessmentState p
       \<and> total_questions (assessmentState s) = 3
       \<and> total_questions (assessmentState s') = 3
       \<and> (e \<notin> {Click startBtn, Click correctBtn, Click incorrectBtn, Click retryBtn}
            \<longrightarrow> assessmentState s' = assessmentState s)"
proof -
  have cs: "consistent s"
    using run_consistent [OF Start_consistent [OF assms(1)] assms(2)] .
  have cs': "consistent s'" using fire_consistent [OF cs assms(3)] .
  have frame: "assessmentState s' = assessmentState s"
    if "e \<notin> {Click startBtn, Click correctBtn, Click incorrectBtn, Click retryBtn}"
  proof (cases e)
    case (Click c)
    with that assms(3) show ?thesis by (cases c) (auto split: if_splits)
  qed (use assms(3) in \<open>auto split: if_splits\<close>)
  show ?thesis using cs cs' frame by (simp add: consistent_def)
qed

theorem session_frame_witness:
  "Start freshPage
   \<and> AssessmentSettled (Fulfilled \<lparr>message = None, next_question = Some ''Q1'',
         resources = None, final_step = False, answer = None\<rparr>)
       \<notin> {Click startBtn, Click correctBtn, Click incorrectBtn, Click retryBtn}
   \<and> assessmentState (the (run [Input ''nurse'', Click startBtn,
         AssessmentSettled (Fulfilled \<lparr>message = None, next_question = Some ''Q1'',
           resources = None, final_step = False, answer = None\<rparr>)] freshPage))
     = \<lparr>career = ''nurse'', previous_answers = [], total_questions = 3, is_retry = False\<rparr>"
proof -
  let ?e = "AssessmentSettled (Fulfilled \<lparr>message = None, next_question = Some ''Q1'',
         resources = None, final_step = False, answer = None\<rparr>)"
  let ?evs = "[Input ''nurse'', Click startBtn]"
  let ?s = "the (run ?evs freshPage)"
  let ?s' = "the (fire ?e ?s)"
  have a: "Start freshPage" by (simp add: page_eval)
  have b: "run ?evs freshPage = Some ?s" by (simp add: page_eval)
  have c: "fire ?e ?s = Some ?s'" by (simp add: page_eval)
  have d: "assessmentState ?s
     = \<lparr>career = ''nurse'', previous_answers = [], total_questions = 3, is_retry = False\<rparr>"
    by (simp add: page_eval)
  have f: "the (run (?evs @ [?e]) freshPage) = ?s'"
    by (simp add: page_eval)
  show ?thesis
    using session_frame [OF a b c] a d f by simp
qed

text \<open>
  Claim C10. When the request of a grade call fails, the record the call appended stays
  in the history and the displayed question stays as it was; grading again then leaves
  two records for the same question.
\<close>

theorem grade_not_rolled_back:
  "previous_answers (assessmentState (callApi_settled NetworkError (handleAnswer b1 s)))
     = previous_answers (assessmentState s) @ [\<lparr>question = aiQuestionEl_text s, correct = b1\<rparr>]
   \<and> previous_answers (assessmentState (callApi_settled ParseError (handleAnswer b1 s)))
     = previous_answers (assessmentState s) @ [\<lparr>question = aiQuestionEl_text s, correct = b1\<rparr>]
   \<and> aiQuestionEl_text (callApi_settled NetworkError (handleAnswer b1 s)) = aiQuestionEl_text s
   \<and> aiQuestionEl_text (callApi_settled ParseError (handleAnswer b1 s)) = aiQuestionEl_text s
   \<and> previous_answers (assessmentState
        (handleAnswer b2 (callApi_settled NetworkError (handleAnswer b1 s))))
     = previous_answers (assessmentState s)
         @ [\<lparr>question = aiQuestionEl_text s, correct = b1\<rparr>,
            \<lparr>question = aiQuestionEl_text s, correct = b2\<rparr>]
   \<and> previous_answers (assessmentState
        (handleAnswer b2 (callApi_settled ParseError (handleAnswer b1 s))))
     = previous_answers (assessmentState s)
         @ [\<lparr>question = aiQuestionEl_text s, correct = b1\<rparr>,
            \<lparr>question = aiQuestionEl_text s, correct = b2\<rparr>]"
  by (simp add: handleAnswer_def callApi_def fetch_def callApi_settled_def Let_def)

end
